theory Spec2Isabelle
  imports Complex_Main
begin

section \<open>Technical signal and valuation engine of the portfolio client\<close>

text \<open>
  The helper functions of the screens \<^verbatim>\<open>ListStocks.tsx\<close>, \<open>Strategies\<close> and
  \<^verbatim>\<open>ListHoldings.tsx\<close> are embedded as HOL functions.

  Conventions of the embedding:
  \<^item> a TypeScript \<open>number\<close> is a \<open>real\<close>: the finite values, with exact arithmetic
    (\<open>NaN\<close>, the infinities and rounding of doubles are outside the model);
  \<^item> \<open>number | null | undefined\<close> is a \<open>real option\<close>, \<open>None\<close> standing for both
    \<open>null\<close> and \<open>undefined\<close>;
  \<^item> a string is a \<open>string\<close> of bytes; all text the functions inspect is ASCII;
  \<^item> what a function reads from its environment (the clock, the time zone, the
    component state, the built-in date parser and \<open>Intl.NumberFormat\<close>) is an
    explicit argument.
\<close>

subsection \<open>52-week range position (\<open>calculate52WeekPosition\<close>)\<close>

text \<open>
  \<^verbatim>\<open>if (current == null || low == null || high == null || high === low) return 0;
  const position = ((current - low) / (high - low)) * 100;
  return Math.max(0, Math.min(100, position));\<close>
\<close>

definition calculate52WeekPosition :: "real option \<Rightarrow> real option \<Rightarrow> real option \<Rightarrow> real" where
  "calculate52WeekPosition current low high =
     (case (current, low, high) of
        (Some c, Some l, Some h) \<Rightarrow>
          if h = l then 0
          else (let position = ((c - l) / (h - l)) * 100
                in max 0 (min 100 position))
      | _ \<Rightarrow> 0)"

text \<open>The clamp of the specification, written from its words.\<close>

definition clamp :: "real \<Rightarrow> real \<Rightarrow> real \<Rightarrow> real" where
  "clamp x lo hi = (if x < lo then lo else if hi < x then hi else x)"

subsection \<open>Moving-average signal (\<open>getMASignal\<close>)\<close>

record ma_signal =
  signal :: string
  color :: string
  chipColor :: string

text \<open>JavaScript truthiness of \<open>number | null | undefined\<close>: \<open>!x\<close> holds for
  \<open>null\<close>, \<open>undefined\<close> and \<open>0\<close>.\<close>

definition falsy_num :: "real option \<Rightarrow> bool" where
  "falsy_num x = (case x of None \<Rightarrow> True | Some v \<Rightarrow> v = 0)"

definition getMASignal :: "real option \<Rightarrow> real option \<Rightarrow> real option \<Rightarrow> ma_signal" where
  "getMASignal closePrice ma20 ma200 =
     (if falsy_num closePrice \<or> falsy_num ma20 \<or> falsy_num ma200
      then \<lparr>signal = ''No Data'', color = ''text.disabled'', chipColor = ''default''\<rparr>
      else
        (case (closePrice, ma20, ma200) of
           (Some p, Some m20, Some m200) \<Rightarrow>
             (let aboveMA20 = p > m20;
                  aboveMA200 = p > m200;
                  ma20AboveMA200 = m20 > m200
              in if aboveMA20 \<and> aboveMA200 \<and> ma20AboveMA200
                 then \<lparr>signal = ''Strong Bullish'', color = ''success.main'', chipColor = ''success''\<rparr>
                 else if aboveMA20 \<and> aboveMA200
                 then \<lparr>signal = ''Bullish'', color = ''success.light'', chipColor = ''success''\<rparr>
                 else if \<not> aboveMA20 \<and> \<not> aboveMA200 \<and> \<not> ma20AboveMA200
                 then \<lparr>signal = ''Strong Bearish'', color = ''error.main'', chipColor = ''error''\<rparr>
                 else if \<not> aboveMA20 \<and> \<not> aboveMA200
                 then \<lparr>signal = ''Bearish'', color = ''error.light'', chipColor = ''error''\<rparr>
                 else \<lparr>signal = ''Neutral'', color = ''warning.main'', chipColor = ''warning''\<rparr>)
         | _ \<Rightarrow> \<lparr>signal = ''No Data'', color = ''text.disabled'', chipColor = ''default''\<rparr>))"

subsection \<open>Numbers as text\<close>

text \<open>Template literals print an integer-valued number in decimal.\<close>

definition digit :: "nat \<Rightarrow> char" where
  "digit d = ''0123456789'' ! d"

fun showNat :: "nat \<Rightarrow> string" where
  "showNat n = (if n < 10 then [digit n] else showNat (n div 10) @ [digit (n mod 10)])"

declare showNat.simps [simp del]

definition showInt :: "int \<Rightarrow> string" where
  "showInt i = (if i < 0 then ''-'' @ showNat (nat (- i)) else showNat (nat i))"

subsection \<open>Dates and the clock\<close>

text \<open>
  A \<open>Date\<close> object is its time value: the milliseconds since the epoch, an \<open>int\<close>;
  \<open>Invalid Date\<close> (time value \<open>NaN\<close>) is \<open>None\<close>. The functions below read three things
  of the host: the clock (\<open>new Date()\<close>, \<open>Date.now()\<close>), the built-in parser
  (\<open>new Date(s)\<close>) and the local time zone, through \<open>setHours(0, 0, 0, 0)\<close>, which
  moves a time value to the local midnight of its day.
\<close>

record env =
  clock :: int
  parseDate :: "string \<Rightarrow> int option"
  localMidnight :: "int \<Rightarrow> int"

definition msPerDay :: int where
  "msPerDay = 1000 * 60 * 60 * 24"

text \<open>
  \<open>getDaysAgo\<close> of the stocks screen. \<open>!date\<close> holds for \<open>null\<close> and for the empty string.
  For an unparsable string every time value is \<open>NaN\<close>: the three comparisons are false
  and the template prints \<open>NaN\<close>.
\<close>

definition getDaysAgo :: "env \<Rightarrow> string option \<Rightarrow> string" where
  "getDaysAgo e date =
     (case date of
        None \<Rightarrow> []
      | Some s \<Rightarrow>
          if s = [] then []
          else
            (case parseDate e s of
               None \<Rightarrow> ''NaN days ago''
             | Some t \<Rightarrow>
                 (let priceDate = localMidnight e t;
                      now = localMidnight e (clock e);
                      diffTime = now - priceDate;
                      diffDays = diffTime div msPerDay
                  in if diffDays = 0 then ''Today''
                     else if diffDays = 1 then ''1 day ago''
                     else if diffDays < 0 then ''Future date''
                     else showInt diffDays @ '' days ago'')))"

text \<open>
  The stale flag of the \<open>price_last_updated\<close> column:
  \<^verbatim>\<open>params.value && new Date(params.value) < new Date(Date.now() - 7 * 24 * 60 * 60 * 1000)\<close>
\<close>

definition isStale :: "env \<Rightarrow> string option \<Rightarrow> bool" where
  "isStale e v =
     (case v of
        None \<Rightarrow> False
      | Some s \<Rightarrow>
          s \<noteq> [] \<and>
          (case parseDate e s of
             None \<Rightarrow> False
           | Some t \<Rightarrow> t < clock e - 7 * 24 * 60 * 60 * 1000))"


definition getDaysAgoColor :: "env \<Rightarrow> string \<Rightarrow> string" where
  "getDaysAgoColor e dateString =
     (case parseDate e dateString of
        None \<Rightarrow> ''text.secondary''
      | Some updatedDate \<Rightarrow>
          (let diffTime = \<bar>clock e - updatedDate\<bar>;
               diffDays = diffTime div msPerDay
           in if diffDays > 2 then ''error.main'' else ''text.secondary''))"

text \<open>
  The day difference of the specification, from its words: both sides normalised to
  midnight before differencing.
\<close>

definition midnightDiffDays :: "env \<Rightarrow> int \<Rightarrow> int" where
  "midnightDiffDays e t = (localMidnight e (clock e) - localMidnight e t) div msPerDay"

text \<open>
  A host for concrete runs: it lives in UTC and its parser knows a few ISO-8601
  strings, each with the time value \<open>Date.parse\<close> gives it.
\<close>

definition utcMidnight :: "int \<Rightarrow> int" where
  "utcMidnight t = t - t mod msPerDay"

definition knownDates :: "(string \<times> int) list" where
  "knownDates =
     [(''2024-03-03T11:00:00Z'', 1709463600000),
      (''2024-03-07T23:00:00Z'', 1709852400000),
      (''2024-03-09T13:30:00Z'', 1709991000000),
      (''2024-03-10T01:00:00Z'', 1710032400000),
      (''2024-03-12T09:00:00Z'', 1710234000000)]"

definition utcHost :: "int \<Rightarrow> env" where
  "utcHost now = \<lparr>clock = now, parseDate = map_of knownDates, localMidnight = utcMidnight\<rparr>"

subsection \<open>Built-in string and number operations\<close>

text \<open>
  \<open>Number.prototype.toFixed(f)\<close> for a magnitude below \<open>10\<^sup>2\<^sup>1\<close>: the sign, then the
  integer \<open>n\<close> nearest to \<open>x \<times> 10\<^sup>f\<close> (the larger one on a tie) printed in decimal,
  padded with zeros to \<open>f + 1\<close> digits, with a point before the last \<open>f\<close> digits. From
  \<open>10\<^sup>2\<^sup>1\<close> on the built-in prints exponent notation; such magnitudes are outside the
  model, as \<open>NaN\<close> is, and the properties below exclude them.
\<close>

definition toFixed :: "nat \<Rightarrow> real \<Rightarrow> string" where
  "toFixed f x =
     (let s = (if x < 0 then ''-'' else []);
          n = nat \<lfloor>\<bar>x\<bar> * 10 ^ f + 1 / 2\<rfloor>;
          m = showNat n;
          m = (if f \<noteq> 0 \<and> length m \<le> f then replicate (f + 1 - length m) (CHR ''0'') @ m else m);
          k = length m
      in if f = 0 then s @ m else s @ take (k - f) m @ ''.'' @ drop (k - f) m)"



text \<open>\<open>s.split(sep)\<close> for a separator of one character; the result is never empty.\<close>

fun splitOn :: "char \<Rightarrow> string \<Rightarrow> string list" where
  "splitOn sep [] = [[]]"
| "splitOn sep (c # cs) =
     (let r = splitOn sep cs in if c = sep then [] # r else (c # hd r) # tl r)"

text \<open>Reading an array element: \<open>undefined\<close> past the end.\<close>

definition element :: "'a list \<Rightarrow> nat \<Rightarrow> 'a option" where
  "element xs i = (if i < length xs then Some (xs ! i) else None)"

text \<open>\<open>s.substring(start, end)\<close>: both indices are clamped to \<open>[0, length]\<close> and swapped
  when out of order.\<close>

definition substring :: "string \<Rightarrow> int \<Rightarrow> int \<Rightarrow> string" where
  "substring s start end' =
     (let len = int (length s);
          a = min (max start 0) len;
          b = min (max end' 0) len;
          from = min a b;
          to = max a b
      in take (nat (to - from)) (drop (nat from) s))"

text \<open>
  \<^verbatim>\<open>s.replace(/\B(?=(\d{2})+(?!\d))/g, ',')\<close>: a comma is inserted at every position that
  is not a word boundary and is followed by a maximal run of digits of even, positive
  length. The scan carries the character before the position.
\<close>

definition isDigit :: "char \<Rightarrow> bool" where
  "isDigit c = (c \<in> set ''0123456789'')"

definition isWordChar :: "char \<Rightarrow> bool" where
  "isWordChar c =
     (isDigit c \<or> c = CHR ''_''
      \<or> c \<in> set ''abcdefghijklmnopqrstuvwxyz'' \<or> c \<in> set ''ABCDEFGHIJKLMNOPQRSTUVWXYZ'')"

definition wordSide :: "char option \<Rightarrow> bool" where
  "wordSide c = (case c of None \<Rightarrow> False | Some x \<Rightarrow> isWordChar x)"

definition notWordBoundary :: "char option \<Rightarrow> char option \<Rightarrow> bool" where
  "notWordBoundary left right = (wordSide left = wordSide right)"

definition evenDigitRunAhead :: "string \<Rightarrow> bool" where
  "evenDigitRunAhead rest = (let k = length (takeWhile isDigit rest) in 2 \<le> k \<and> even k)"

fun insertCommas :: "char option \<Rightarrow> string \<Rightarrow> string" where
  "insertCommas prev [] = []"
| "insertCommas prev (c # cs) =
     (if notWordBoundary prev (Some c) \<and> evenDigitRunAhead (c # cs) then '','' else [])
     @ c # insertCommas (Some c) cs"

definition replacePairBoundaries :: "string \<Rightarrow> string" where
  "replacePairBoundaries s = insertCommas None s"

subsection \<open>Strategy formula validation (\<open>validateFormula\<close>)\<close>




subsection \<open>Portfolio summary (\<open>calculateFilteredSummary\<close>)\<close>

text \<open>The two fields of a holding detail that the summary reads, and the four lists
  of the holdings response.\<close>

record holding =
  invested_value :: real
  current_value :: real

record holdings =
  stocks :: "holding list"
  etfs :: "holding list"
  mutual_funds :: "holding list"
  bonds :: "holding list"

record summary =
  totalInvested :: real
  totalCurrentValue :: real
  totalProfitLoss :: real
  totalProfitLossPercentage :: real
  totalCount :: nat

text \<open>One \<open>forEach\<close> over a list, adding to the two running totals, followed by the
  update of the count.\<close>

definition addHoldings :: "holding list \<Rightarrow> real \<times> real \<times> nat \<Rightarrow> real \<times> real \<times> nat" where
  "addHoldings hs acc =
     (case foldl (\<lambda>(invested, current) h. (invested + invested_value h, current + current_value h))
                 (fst acc, fst (snd acc)) hs of
        (invested, current) \<Rightarrow> (invested, current, snd (snd acc) + length hs))"

definition calculateFilteredSummary :: "holdings option \<Rightarrow> string list \<Rightarrow> summary option" where
  "calculateFilteredSummary hold selectedAssetTypes =
     (case hold of
        None \<Rightarrow> None
      | Some h \<Rightarrow>
          (let acc = (0, 0, 0);
               acc = (if ''stocks'' \<in> set selectedAssetTypes then addHoldings (stocks h) acc else acc);
               acc = (if ''etfs'' \<in> set selectedAssetTypes then addHoldings (etfs h) acc else acc);
               acc = (if ''mutual_funds'' \<in> set selectedAssetTypes then addHoldings (mutual_funds h) acc else acc);
               acc = (if ''bonds'' \<in> set selectedAssetTypes then addHoldings (bonds h) acc else acc);
               invested = fst acc;
               current = fst (snd acc);
               profitLoss = current - invested;
               profitLossPercentage = (if invested > 0 then (profitLoss / invested) * 100 else 0)
           in Some \<lparr>totalInvested = invested, totalCurrentValue = current,
                     totalProfitLoss = profitLoss,
                     totalProfitLossPercentage = profitLossPercentage,
                     totalCount = snd (snd acc)\<rparr>))"

text \<open>The holdings of the selected asset classes, from the words of the specification.\<close>

definition selectedHoldings :: "holdings \<Rightarrow> string list \<Rightarrow> holding list" where
  "selectedHoldings h sel =
     (if ''stocks'' \<in> set sel then stocks h else [])
     @ (if ''etfs'' \<in> set sel then etfs h else [])
     @ (if ''mutual_funds'' \<in> set sel then mutual_funds h else [])
     @ (if ''bonds'' \<in> set sel then bonds h else [])"

subsection \<open>Currency text (\<open>formatCurrency\<close>)\<close>

text \<open>
  The function exists in several copies, which differ in one place: the currency
  literal of the INR branch. In the holdings screen with the data grids and in
  \<^verbatim>\<open>HoldingRecommendations.tsx\<close> the literal is the rupee sign U+20B9, three bytes in
  UTF-8. In \<^verbatim>\<open>pages/Holdings/ListHoldings.tsx\<close> the file holds the three characters
  U+00E2, U+201A, U+00B9 instead (the bytes of the rupee sign read in a one-byte code
  page and stored again), seven bytes in UTF-8.
\<close>

definition rupee :: string where
  "rupee = [CHR 0xE2, CHR 0x82, CHR 0xB9]"

definition rupeeMisread :: string where
  "rupeeMisread = [CHR 0xC3, CHR 0xA2, CHR 0xE2, CHR 0x80, CHR 0x9A, CHR 0xC2, CHR 0xB9]"

text \<open>
  The body shared by the copies, with the literal as its first argument. The second
  argument stands for \<open>new Intl.NumberFormat('en-US', {style: 'currency', ...})\<close>, which
  formats every currency other than INR. An array element that is \<open>undefined\<close> prints
  as that word in a template literal.
\<close>

definition formatCurrencyWith ::
    "string \<Rightarrow> (string \<Rightarrow> real \<Rightarrow> string) \<Rightarrow> real \<Rightarrow> string \<Rightarrow> string" where
  "formatCurrencyWith literal intlFormat value currency =
     (if currency = ''INR''
      then
        (let isNegative = value < 0;
             absValue = \<bar>value\<bar>;
             formatted = toFixed 2 absValue;
             parts = splitOn (CHR ''.'') formatted;
             integerPart = hd parts;
             decimalPart = element parts 1;
             len = int (length integerPart);
             lastThree = substring integerPart (len - 3) len;
             otherNumbers = substring integerPart 0 (len - 3);
             lastThree = (if otherNumbers \<noteq> [] then '','' @ lastThree else lastThree);
             formattedInteger = replacePairBoundaries otherNumbers @ lastThree
         in (if isNegative then ''-'' else []) @ literal @ formattedInteger @ ''.''
            @ (case decimalPart of None \<Rightarrow> ''undefined'' | Some d \<Rightarrow> d))
      else intlFormat currency value)"

text \<open>\<open>formatCurrency\<close> of \<^verbatim>\<open>pages/Holdings/ListHoldings.tsx\<close>.\<close>

definition formatCurrency_ListHoldings :: "(string \<Rightarrow> real \<Rightarrow> string) \<Rightarrow> real \<Rightarrow> string \<Rightarrow> string" where
  "formatCurrency_ListHoldings = formatCurrencyWith rupeeMisread"

text \<open>\<open>formatCurrency\<close> of the holdings screen with the data grids.\<close>

definition formatCurrency_grid :: "(string \<Rightarrow> real \<Rightarrow> string) \<Rightarrow> real \<Rightarrow> string \<Rightarrow> string" where
  "formatCurrency_grid = formatCurrencyWith rupee"

text \<open>
  The Indian grouping of the specification, from its words: the last three digits form
  one group, and the digits to their left are grouped in pairs, counted from the right.
\<close>

fun chunks2 :: "'a list \<Rightarrow> 'a list list" where
  "chunks2 [] = []"
| "chunks2 [a] = [[a]]"
| "chunks2 (a # b # r) = [a, b] # chunks2 r"

definition pairsFromRight :: "string \<Rightarrow> string list" where
  "pairsFromRight s = rev (map rev (chunks2 (rev s)))"

fun joinWith :: "char \<Rightarrow> string list \<Rightarrow> string" where
  "joinWith c [] = []"
| "joinWith c [g] = g"
| "joinWith c (g # gs) = g @ c # joinWith c gs"

definition indianGrouping :: "string \<Rightarrow> string" where
  "indianGrouping ds =
     (if length ds \<le> 3 then ds
      else joinWith (CHR '','')
             (pairsFromRight (take (length ds - 3) ds) @ [drop (length ds - 3) ds]))"

text \<open>A stand-in for the formatter of the other currencies in concrete runs.\<close>

definition plainFormat :: "string \<Rightarrow> real \<Rightarrow> string" where
  "plainFormat currency value = currency @ '' '' @ toFixed 2 value"

section \<open>Properties\<close>

subsection \<open>Range position\<close>

lemma position_absent:
  "calculate52WeekPosition None l h = 0"
  "calculate52WeekPosition c None h = 0"
  "calculate52WeekPosition c l None = 0"
  by (simp_all add: calculate52WeekPosition_def split: option.splits)

lemma position_degenerate: "calculate52WeekPosition c l l = 0"
  by (simp add: calculate52WeekPosition_def split: option.splits)

lemma position_clamp:
  assumes "h \<noteq> l"
  shows "calculate52WeekPosition (Some c) (Some l) (Some h) = clamp (((c - l) / (h - l)) * 100) 0 100"
  using assms by (simp add: calculate52WeekPosition_def clamp_def Let_def)

lemma position_bounds:
  "0 \<le> calculate52WeekPosition c l h" "calculate52WeekPosition c l h \<le> 100"
  by (simp_all add: calculate52WeekPosition_def Let_def split: option.splits)

text \<open>
  Claim C2. \<open>calculate52WeekPosition\<close> returns 0 whenever one of its arguments is absent
  or \<open>high\<close> equals \<open>low\<close>; for present arguments with \<open>high \<noteq> low\<close> it returns
  \<open>clamp (((current - low) / (high - low)) * 100) 0 100\<close>; for \<open>low < high\<close> the result lies
  in \<open>[0, 100]\<close>, the position of \<open>low\<close> is 0 and the position of \<open>high\<close> is 100.
\<close>

theorem calculate52WeekPosition_spec:
  "(current = None \<or> low = None \<or> high = None \<or> high = low
      \<longrightarrow> calculate52WeekPosition current low high = 0)
   \<and> (h \<noteq> l \<longrightarrow>
        calculate52WeekPosition (Some c) (Some l) (Some h) = clamp (((c - l) / (h - l)) * 100) 0 100)
   \<and> (l < h \<longrightarrow>
        0 \<le> calculate52WeekPosition (Some c) (Some l) (Some h)
        \<and> calculate52WeekPosition (Some c) (Some l) (Some h) \<le> 100
        \<and> calculate52WeekPosition (Some l) (Some l) (Some h) = 0
        \<and> calculate52WeekPosition (Some h) (Some l) (Some h) = 100)"
proof (intro conjI impI)
  assume "current = None \<or> low = None \<or> high = None \<or> high = low"
  then show "calculate52WeekPosition current low high = 0"
    using position_absent position_degenerate by metis
next
  assume "h \<noteq> l"
  then show "calculate52WeekPosition (Some c) (Some l) (Some h) = clamp (((c - l) / (h - l)) * 100) 0 100"
    by (rule position_clamp)
next
  assume "l < h"
  show "0 \<le> calculate52WeekPosition (Some c) (Some l) (Some h)"
    and "calculate52WeekPosition (Some c) (Some l) (Some h) \<le> 100"
    by (rule position_bounds)+
  from \<open>l < h\<close> show "calculate52WeekPosition (Some l) (Some l) (Some h) = 0"
    by (simp add: calculate52WeekPosition_def)
  from \<open>l < h\<close> show "calculate52WeekPosition (Some h) (Some l) (Some h) = 100"
    by (simp add: calculate52WeekPosition_def)
qed

theorem calculate52WeekPosition_spec_witness:
  "calculate52WeekPosition None (Some 50) (Some 150) = 0
   \<and> calculate52WeekPosition (Some 75) (Some 50) (Some 150) = 25
   \<and> calculate52WeekPosition (Some 50) (Some 50) (Some 150) = 0
   \<and> calculate52WeekPosition (Some 150) (Some 50) (Some 150) = 100"
  using calculate52WeekPosition_spec [of None "Some 50" "Some 150" 150 50 75]
  by (simp add: clamp_def)

subsection \<open>Moving-average signal\<close>

text \<open>
  Claim C1. \<open>getMASignal\<close> is a total function. When one of price, ma20, ma200 is absent
  or zero the signal is \<open>No Data\<close> whatever the others are. Otherwise, with
  \<open>a = price > ma20\<close>, \<open>b = price > ma200\<close>, \<open>c = ma20 > ma200\<close>, the signal is
  \<open>Strong Bullish\<close> iff \<open>a \<and> b \<and> c\<close>, \<open>Bullish\<close> iff \<open>a \<and> b \<and> \<not> c\<close>,
  \<open>Strong Bearish\<close> iff \<open>\<not> a \<and> \<not> b \<and> \<not> c\<close>, \<open>Bearish\<close> iff \<open>\<not> a \<and> \<not> b \<and> c\<close>,
  and \<open>Neutral\<close> for every remaining combination.
\<close>

theorem getMASignal_table:
  "(p = None \<or> p = Some 0 \<or> m20 = None \<or> m20 = Some 0 \<or> m200 = None \<or> m200 = Some 0
      \<longrightarrow> signal (getMASignal p m20 m200) = ''No Data'')
   \<and> (x \<noteq> 0 \<and> y \<noteq> 0 \<and> z \<noteq> 0 \<longrightarrow>
        (let a = x > y; b = x > z; c = y > z;
             s = signal (getMASignal (Some x) (Some y) (Some z))
         in (s = ''Strong Bullish'' \<longleftrightarrow> a \<and> b \<and> c)
          \<and> (s = ''Bullish'' \<longleftrightarrow> a \<and> b \<and> \<not> c)
          \<and> (s = ''Strong Bearish'' \<longleftrightarrow> \<not> a \<and> \<not> b \<and> \<not> c)
          \<and> (s = ''Bearish'' \<longleftrightarrow> \<not> a \<and> \<not> b \<and> c)
          \<and> (s = ''Neutral'' \<longleftrightarrow>
                \<not> (a \<and> b \<and> c) \<and> \<not> (a \<and> b \<and> \<not> c)
                \<and> \<not> (\<not> a \<and> \<not> b \<and> \<not> c) \<and> \<not> (\<not> a \<and> \<not> b \<and> c))))"
proof (intro conjI impI)
  assume "p = None \<or> p = Some 0 \<or> m20 = None \<or> m20 = Some 0 \<or> m200 = None \<or> m200 = Some 0"
  then show "signal (getMASignal p m20 m200) = ''No Data''"
    by (auto simp add: getMASignal_def falsy_num_def split: option.splits)
next
  assume "x \<noteq> 0 \<and> y \<noteq> 0 \<and> z \<noteq> 0"
  then show "let a = x > y; b = x > z; c = y > z;
             s = signal (getMASignal (Some x) (Some y) (Some z))
         in (s = ''Strong Bullish'' \<longleftrightarrow> a \<and> b \<and> c)
          \<and> (s = ''Bullish'' \<longleftrightarrow> a \<and> b \<and> \<not> c)
          \<and> (s = ''Strong Bearish'' \<longleftrightarrow> \<not> a \<and> \<not> b \<and> \<not> c)
          \<and> (s = ''Bearish'' \<longleftrightarrow> \<not> a \<and> \<not> b \<and> c)
          \<and> (s = ''Neutral'' \<longleftrightarrow>
                \<not> (a \<and> b \<and> c) \<and> \<not> (a \<and> b \<and> \<not> c)
                \<and> \<not> (\<not> a \<and> \<not> b \<and> \<not> c) \<and> \<not> (\<not> a \<and> \<not> b \<and> c))"
    by (simp add: getMASignal_def falsy_num_def Let_def)
qed

theorem getMASignal_table_witness:
  "signal (getMASignal (Some 120) None (Some 100)) = ''No Data''
   \<and> signal (getMASignal (Some 120) (Some 110) (Some 100)) = ''Strong Bullish''"
  using getMASignal_table [of "Some 120" None "Some 100" 120 110 100]
  by (simp add: Let_def)

subsection \<open>Decimal text\<close>

lemma showNat_nonempty: "showNat n \<noteq> []"
  by (subst showNat.simps) simp

lemma digit_cases: "d < 10 \<Longrightarrow> digit d \<in> set ''0123456789''"
  unfolding digit_def by (rule nth_mem) simp

lemma showNat_digits: "set (showNat n) \<subseteq> set ''0123456789''"
proof (induction n rule: showNat.induct)
  case (1 n)
  show ?case
  proof (cases "n < 10")
    case True
    then show ?thesis using digit_cases [of n] by (subst showNat.simps) simp
  next
    case False
    then show ?thesis using 1 digit_cases [of "n mod 10"] by (subst showNat.simps) simp
  qed
qed


subsection \<open>Freshness labels of the stocks screen\<close>



subsection \<open>The stale flag\<close>

text \<open>
  Claim C6 says that the stale flag is the midnight-normalised day difference exceeding 7
  (2 on the holdings screen), whatever the time of day. The code compares raw
  milliseconds. At noon of 10 March a price of 3 March 11:00 is stale although the day
  difference is 7; at 01:00 of 10 March a holding of 7 March 23:00 is not coloured stale
  although the day difference is 3.
\<close>

theorem staleness_counterexample:
  "map_of knownDates ''2024-03-03T11:00:00Z'' = Some 1709463600000
   \<and> isStale (utcHost 1710072000000) (Some ''2024-03-03T11:00:00Z'')
   \<and> \<not> 7 < midnightDiffDays (utcHost 1710072000000) 1709463600000
   \<and> map_of knownDates ''2024-03-07T23:00:00Z'' = Some 1709852400000
   \<and> getDaysAgoColor (utcHost 1710032400000) ''2024-03-07T23:00:00Z'' \<noteq> ''error.main''
   \<and> 2 < midnightDiffDays (utcHost 1710032400000) 1709852400000"
  by (simp add: isStale_def getDaysAgoColor_def midnightDiffDays_def utcHost_def knownDates_def
      utcMidnight_def msPerDay_def)

text \<open>
  Claim C6, amended. For a present, parsable timestamp the stale flag of the stocks
  screen is true exactly when the timestamp lies more than \<open>7 \<times> 24\<close> hours before the
  clock, in raw milliseconds; the holdings screen picks the stale colour exactly when
  the timestamp is at least \<open>3 \<times> 24\<close> hours away from the clock, in either direction
  (the floor of the absolute difference in days exceeds 2). Neither normalises to
  midnight.
\<close>

theorem staleness_raw_elapsed:
  "s \<noteq> [] \<and> parseDate e s = Some t \<longrightarrow>
     (isStale e (Some s) \<longleftrightarrow> 7 * msPerDay < clock e - t)
     \<and> (getDaysAgoColor e s = ''error.main'' \<longleftrightarrow> 3 * msPerDay \<le> \<bar>clock e - t\<bar>)"
  by (auto simp add: isStale_def getDaysAgoColor_def msPerDay_def Let_def)

theorem staleness_raw_elapsed_witness:
  "isStale (utcHost 1710072000000) (Some ''2024-03-03T11:00:00Z'')
   \<and> getDaysAgoColor (utcHost 1710072000000) ''2024-03-03T11:00:00Z'' = ''error.main''"
  using staleness_raw_elapsed [of "''2024-03-03T11:00:00Z''" "utcHost 1710072000000" 1709463600000]
  by (simp add: utcHost_def knownDates_def msPerDay_def)

subsection \<open>Dependence on the clock\<close>

text \<open>
  Claim C9 says that the output of \<open>getDaysAgo\<close> depends on its date argument only. The
  function reads the clock: the same date is \<open>Today\<close> at noon of 10 March and
  \<open>1 day ago\<close> twenty-four hours later.
\<close>

theorem getDaysAgo_clock_counterexample:
  "getDaysAgo (utcHost 1710072000000) (Some ''2024-03-10T01:00:00Z'')
     \<noteq> getDaysAgo (utcHost 1710158400000) (Some ''2024-03-10T01:00:00Z'')"
  by (simp add: getDaysAgo_def utcHost_def knownDates_def utcMidnight_def msPerDay_def)

text \<open>
  Claim C9, amended. The output of \<open>getDaysAgo\<close> is determined by its date argument
  together with what it reads of the host: the parser, the time zone and the local
  calendar day of the clock. Two calls with the same date on hosts that agree on these
  return the same label, whatever the time of day of the clock.
\<close>

theorem getDaysAgo_clock_day:
  "parseDate e1 = parseDate e2 \<and> localMidnight e1 = localMidnight e2
     \<and> localMidnight e1 (clock e1) = localMidnight e2 (clock e2)
   \<longrightarrow> getDaysAgo e1 date = getDaysAgo e2 date"
proof (intro impI, elim conjE)
  assume same: "parseDate e1 = parseDate e2" "localMidnight e1 = localMidnight e2"
    "localMidnight e1 (clock e1) = localMidnight e2 (clock e2)"
  from same(3) have "localMidnight e2 (clock e1) = localMidnight e2 (clock e2)"
    by (simp add: same(2))
  then show "getDaysAgo e1 date = getDaysAgo e2 date"
    by (simp add: getDaysAgo_def same(1,2) split: option.splits)
qed

theorem getDaysAgo_clock_day_witness:
  "getDaysAgo (utcHost 1710072000000) (Some ''2024-03-09T13:30:00Z'')
     = getDaysAgo (utcHost 1710032400000) (Some ''2024-03-09T13:30:00Z'')"
  using getDaysAgo_clock_day [of "utcHost 1710072000000" "utcHost 1710032400000" "Some ''2024-03-09T13:30:00Z''"]
  by (simp add: utcHost_def utcMidnight_def msPerDay_def)

subsection \<open>Day labels of the holdings screen\<close>



subsection \<open>Strategy formula validation\<close>










subsection \<open>Portfolio summary\<close>

lemma foldl_totals:
  "foldl (\<lambda>(invested, current) h. (invested + invested_value h, current + current_value h)) (a, b) hs
     = (a + sum_list (map invested_value hs), b + sum_list (map current_value hs))"
  by (induction hs arbitrary: a b) simp_all

lemma addHoldings_totals:
  "addHoldings hs (a, b, n)
     = (a + sum_list (map invested_value hs), b + sum_list (map current_value hs), n + length hs)"
  by (simp add: addHoldings_def foldl_totals)

text \<open>
  Claim C4. \<open>calculateFilteredSummary\<close> sums \<open>invested_value\<close> and \<open>current_value\<close> over the
  holdings of the selected asset classes only (stocks, etfs, mutual_funds, bonds), returns
  the profit or loss as current minus invested, and the percentage as
  \<open>(profitLoss / invested) * 100\<close> when invested is positive and 0 when invested is 0; an
  empty selection gives all zeros.
\<close>

theorem calculateFilteredSummary_spec:
  "(let chosen = selectedHoldings h sel;
        invested = sum_list (map invested_value chosen);
        current = sum_list (map current_value chosen)
    in calculateFilteredSummary (Some h) sel =
         Some \<lparr>totalInvested = invested, totalCurrentValue = current,
               totalProfitLoss = current - invested,
               totalProfitLossPercentage =
                 (if invested > 0 then ((current - invested) / invested) * 100 else 0),
               totalCount = length chosen\<rparr>
       \<and> (invested = 0 \<longrightarrow>
            map_option totalProfitLossPercentage (calculateFilteredSummary (Some h) sel) = Some 0))
   \<and> calculateFilteredSummary (Some h) [] =
         Some \<lparr>totalInvested = 0, totalCurrentValue = 0, totalProfitLoss = 0,
               totalProfitLossPercentage = 0, totalCount = 0\<rparr>"
proof -
  have main: "calculateFilteredSummary (Some h) sel =
         Some \<lparr>totalInvested = sum_list (map invested_value (selectedHoldings h sel)),
               totalCurrentValue = sum_list (map current_value (selectedHoldings h sel)),
               totalProfitLoss = sum_list (map current_value (selectedHoldings h sel))
                  - sum_list (map invested_value (selectedHoldings h sel)),
               totalProfitLossPercentage =
                 (if sum_list (map invested_value (selectedHoldings h sel)) > 0
                  then ((sum_list (map current_value (selectedHoldings h sel))
                         - sum_list (map invested_value (selectedHoldings h sel)))
                        / sum_list (map invested_value (selectedHoldings h sel))) * 100 else 0),
               totalCount = length (selectedHoldings h sel)\<rparr>" for sel
  proof -
    define totals :: "holding list \<Rightarrow> real \<times> real \<times> nat"
      where "totals xs = (sum_list (map invested_value xs), sum_list (map current_value xs), length xs)" for xs
    have start: "(0, 0, 0) = totals []"
      by (simp add: totals_def)
    have step: "(if P then addHoldings hs (totals xs) else totals xs)
                  = totals (xs @ (if P then hs else []))" for P hs xs
      by (simp add: totals_def addHoldings_totals)
    have chosen: "((([] @ (if ''stocks'' \<in> set sel then stocks h else []))
                    @ (if ''etfs'' \<in> set sel then etfs h else []))
                    @ (if ''mutual_funds'' \<in> set sel then mutual_funds h else []))
                    @ (if ''bonds'' \<in> set sel then bonds h else [])
                  = selectedHoldings h sel"
      by (simp add: selectedHoldings_def)
    have "calculateFilteredSummary (Some h) sel =
            (let acc = totals (selectedHoldings h sel);
                 invested = fst acc;
                 current = fst (snd acc);
                 profitLoss = current - invested;
                 profitLossPercentage = (if invested > 0 then (profitLoss / invested) * 100 else 0)
             in Some \<lparr>totalInvested = invested, totalCurrentValue = current,
                       totalProfitLoss = profitLoss,
                       totalProfitLossPercentage = profitLossPercentage,
                       totalCount = snd (snd acc)\<rparr>)"
      by (simp only: calculateFilteredSummary_def option.case start Let_def step chosen)
    then show ?thesis
      by (simp add: totals_def Let_def)
  qed
  have empty: "selectedHoldings h [] = []"
    by (simp add: selectedHoldings_def)
  show ?thesis
    unfolding Let_def
  proof (intro conjI impI)
    show "calculateFilteredSummary (Some h) sel =
         Some \<lparr>totalInvested = sum_list (map invested_value (selectedHoldings h sel)),
               totalCurrentValue = sum_list (map current_value (selectedHoldings h sel)),
               totalProfitLoss = sum_list (map current_value (selectedHoldings h sel))
                  - sum_list (map invested_value (selectedHoldings h sel)),
               totalProfitLossPercentage =
                 (if sum_list (map invested_value (selectedHoldings h sel)) > 0
                  then ((sum_list (map current_value (selectedHoldings h sel))
                         - sum_list (map invested_value (selectedHoldings h sel)))
                        / sum_list (map invested_value (selectedHoldings h sel))) * 100 else 0),
               totalCount = length (selectedHoldings h sel)\<rparr>"
      by (rule main)
  next
    assume "sum_list (map invested_value (selectedHoldings h sel)) = 0"
    then show "map_option totalProfitLossPercentage (calculateFilteredSummary (Some h) sel) = Some 0"
      by (simp add: main)
  next
    show "calculateFilteredSummary (Some h) [] =
         Some \<lparr>totalInvested = 0, totalCurrentValue = 0, totalProfitLoss = 0,
               totalProfitLossPercentage = 0, totalCount = 0\<rparr>"
      by (simp add: main empty)
  qed
qed

theorem calculateFilteredSummary_spec_witness:
  "calculateFilteredSummary
     (Some \<lparr>stocks = [\<lparr>invested_value = 1000, current_value = 1200\<rparr>],
            etfs = [\<lparr>invested_value = 500, current_value = 400\<rparr>],
            mutual_funds = [], bonds = [\<lparr>invested_value = 0, current_value = 30\<rparr>]\<rparr>)
     [''stocks'', ''bonds'']
   = Some \<lparr>totalInvested = 1000, totalCurrentValue = 1230, totalProfitLoss = 230,
           totalProfitLossPercentage = 23, totalCount = 2\<rparr>
   \<and> map_option totalProfitLossPercentage (calculateFilteredSummary
     (Some \<lparr>stocks = [\<lparr>invested_value = 1000, current_value = 1200\<rparr>],
            etfs = [\<lparr>invested_value = 500, current_value = 400\<rparr>],
            mutual_funds = [], bonds = [\<lparr>invested_value = 0, current_value = 30\<rparr>]\<rparr>)
     [''bonds'']) = Some 0"
  using calculateFilteredSummary_spec
     [of "\<lparr>stocks = [\<lparr>invested_value = 1000, current_value = 1200\<rparr>],
            etfs = [\<lparr>invested_value = 500, current_value = 400\<rparr>],
            mutual_funds = [], bonds = [\<lparr>invested_value = 0, current_value = 30\<rparr>]\<rparr>"
         "[''stocks'', ''bonds'']"]
    calculateFilteredSummary_spec
     [of "\<lparr>stocks = [\<lparr>invested_value = 1000, current_value = 1200\<rparr>],
            etfs = [\<lparr>invested_value = 500, current_value = 400\<rparr>],
            mutual_funds = [], bonds = [\<lparr>invested_value = 0, current_value = 30\<rparr>]\<rparr>"
         "[''bonds'']"]
  by (simp add: selectedHoldings_def Let_def)


subsection \<open>Currency text: decimal text of the hundredths\<close>

lemma showNat_small: "n < 10 \<Longrightarrow> showNat n = [digit n]"
  by (subst showNat.simps) simp

lemma showNat_step: "10 \<le> n \<Longrightarrow> showNat n = showNat (n div 10) @ [digit (n mod 10)]"
  by (subst showNat.simps) simp

lemma showNat_hundreds:
  assumes "100 \<le> n"
  shows "showNat n = showNat (n div 100) @ [digit (n div 10 mod 10), digit (n mod 10)]"
proof -
  have "10 \<le> n" "10 \<le> n div 10" using assms by auto
  moreover have "n div 10 div 10 = n div 100" by (simp add: div_mult2_eq)
  ultimately show ?thesis
    using showNat_step [of n] showNat_step [of "n div 10"] by simp
qed

lemma padded_hundredths:
  "(let m = showNat n
    in if length m \<le> 2 then replicate (2 + 1 - length m) (CHR ''0'') @ m else m)
   = showNat (n div 100) @ [digit (n div 10 mod 10), digit (n mod 10)]"
proof -
  consider "n < 10" | "10 \<le> n" "n < 100" | "100 \<le> n" by linarith
  then show ?thesis
  proof cases
    case 1
    then show ?thesis
      by (simp add: showNat_small Let_def digit_def numeral_2_eq_2)
  next
    case 2
    then have "showNat n = [digit (n div 10), digit (n mod 10)]"
      using showNat_step [of n] by (simp add: showNat_small)
    with 2 show ?thesis
      by (simp add: showNat_small Let_def digit_def)
  next
    case 3
    then show ?thesis
      by (simp add: showNat_hundreds showNat_nonempty Let_def)
  qed
qed

lemma toFixed2_nonneg:
  assumes "0 \<le> x"
  shows "toFixed 2 x =
           showNat (nat \<lfloor>x * 100 + 1 / 2\<rfloor> div 100) @ ''.''
           @ [digit (nat \<lfloor>x * 100 + 1 / 2\<rfloor> div 10 mod 10), digit (nat \<lfloor>x * 100 + 1 / 2\<rfloor> mod 10)]"
proof -
  define n where "n = nat \<lfloor>x * 100 + 1 / 2\<rfloor>"
  define m where "m = showNat (n div 100) @ [digit (n div 10 mod 10), digit (n mod 10)]"
  have pad: "(if length (showNat n) \<le> 2
              then replicate (2 + 1 - length (showNat n)) (CHR ''0'') @ showNat n
              else showNat n) = m"
    using padded_hundredths [of n] by (simp add: Let_def m_def)
  have "toFixed 2 x =
          (let m = (if length (showNat n) \<le> 2
                    then replicate (2 + 1 - length (showNat n)) (CHR ''0'') @ showNat n
                    else showNat n)
           in take (length m - 2) m @ ''.'' @ drop (length m - 2) m)"
    using assms by (simp add: toFixed_def n_def Let_def)
  then have "toFixed 2 x = take (length m - 2) m @ ''.'' @ drop (length m - 2) m"
    unfolding pad Let_def .
  also have "\<dots> = showNat (n div 100) @ ''.'' @ [digit (n div 10 mod 10), digit (n mod 10)]"
    by (simp add: m_def)
  finally show ?thesis by (simp add: n_def)
qed

subsection \<open>Splitting at the point\<close>

lemma splitOn_absent: "sep \<notin> set s \<Longrightarrow> splitOn sep s = [s]"
  by (induction s) (auto simp add: Let_def)

lemma splitOn_first: "sep \<notin> set xs \<Longrightarrow> splitOn sep (xs @ sep # ys) = xs # splitOn sep ys"
  by (induction xs) (auto simp add: Let_def)

lemma digit_not_point: "d < 10 \<Longrightarrow> digit d \<noteq> CHR ''.''"
  using digit_cases [of d] by auto

lemma showNat_no_point: "CHR ''.'' \<notin> set (showNat n)"
  using showNat_digits [of n] by auto

lemma split_fixed:
  assumes "a < 10" "b < 10"
  shows "splitOn (CHR ''.'') (showNat q @ ''.'' @ [digit a, digit b]) = [showNat q, [digit a, digit b]]"
proof -
  have "CHR ''.'' \<notin> set [digit a, digit b]"
    using digit_not_point [OF assms(1)] digit_not_point [OF assms(2)] by auto
  then have "splitOn (CHR ''.'') [digit a, digit b] = [[digit a, digit b]]"
    by (rule splitOn_absent)
  then show ?thesis
    using splitOn_first [OF showNat_no_point, of q "[digit a, digit b]"] by simp
qed

subsection \<open>The two substrings\<close>

lemma substring_tail: "substring s (int (length s) - 3) (int (length s)) = drop (length s - 3) s"
  by (auto simp add: substring_def Let_def min_def max_def nat_diff_distrib')

lemma substring_head: "substring s 0 (int (length s) - 3) = take (length s - 3) s"
  by (auto simp add: substring_def Let_def min_def max_def nat_diff_distrib')

subsection \<open>Pairs from the right\<close>

lemma chunks2_snoc1: "even (length xs) \<Longrightarrow> chunks2 (xs @ [a]) = chunks2 xs @ [[a]]"
  by (induction xs rule: chunks2.induct) simp_all

lemma chunks2_snoc2: "even (length xs) \<Longrightarrow> chunks2 (xs @ [a, b]) = chunks2 xs @ [[a, b]]"
  by (induction xs rule: chunks2.induct) simp_all

lemma pairsFromRight_Nil [simp]: "pairsFromRight [] = []"
  by (simp add: pairsFromRight_def)

lemma pairsFromRight_single:
  "even (length cs) \<Longrightarrow> pairsFromRight (c # cs) = [c] # pairsFromRight cs"
  by (simp add: pairsFromRight_def chunks2_snoc1)

lemma pairsFromRight_pair:
  "even (length ds) \<Longrightarrow> pairsFromRight (c # d # ds) = [c, d] # pairsFromRight ds"
  using chunks2_snoc2 [of "rev ds" d c] by (simp add: pairsFromRight_def)

lemma pairsFromRight_empty_iff: "pairsFromRight s = [] \<longleftrightarrow> s = []"
proof (cases s)
  case Nil
  then show ?thesis by simp
next
  case (Cons c cs)
  show ?thesis
  proof (cases "even (length cs)")
    case True
    with Cons show ?thesis by (simp add: pairsFromRight_single)
  next
    case False
    then obtain d ds where "cs = d # ds" by (cases cs) auto
    with False Cons show ?thesis by (simp add: pairsFromRight_pair)
  qed
qed

lemma joinWith_Cons: "joinWith c (g # gs) = g @ (if gs = [] then [] else c # joinWith c gs)"
  by (cases gs) simp_all

lemma joinWith_snoc: "gs \<noteq> [] \<Longrightarrow> joinWith c (gs @ [g]) = joinWith c gs @ c # g"
  by (induction gs rule: joinWith.induct) simp_all

lemma grouped_even_tail:
  "even (length cs) \<Longrightarrow>
     joinWith s (pairsFromRight (c # cs))
       = c # (if cs = [] then [] else s # joinWith s (pairsFromRight cs))"
  by (simp add: pairsFromRight_single joinWith_Cons pairsFromRight_empty_iff)

lemma grouped_odd_tail:
  assumes "odd (length cs)"
  shows "joinWith s (pairsFromRight (c # cs)) = c # joinWith s (pairsFromRight cs)"
proof -
  from assms obtain d ds where cs: "cs = d # ds" by (cases cs) auto
  with assms have "even (length ds)" by simp
  then show ?thesis
    by (simp add: cs pairsFromRight_pair pairsFromRight_single joinWith_Cons)
qed

subsection \<open>The regular expression on digits\<close>

lemma isDigit_word: "isDigit c \<Longrightarrow> isWordChar c"
  by (simp add: isWordChar_def)

lemma digit_run_all: "\<forall>c \<in> set s. isDigit c \<Longrightarrow> takeWhile isDigit s = s"
  by (simp add: takeWhile_eq_all_conv)

lemma insertCommas_after_digit:
  assumes "isDigit p" "\<forall>c \<in> set s. isDigit c"
  shows "insertCommas (Some p) s
           = (if even (length s) \<and> s \<noteq> [] then CHR '','' # joinWith (CHR '','') (pairsFromRight s)
              else joinWith (CHR '','') (pairsFromRight s))"
  using assms
proof (induction s arbitrary: p)
  case Nil
  then show ?case by simp
next
  case (Cons c cs)
  then have dc: "isDigit c" and dcs: "\<forall>x \<in> set cs. isDigit x" by simp_all
  have run: "takeWhile isDigit (c # cs) = c # cs"
    using Cons.prems(2) by (rule digit_run_all)
  have here: "notWordBoundary (Some p) (Some c) \<and> evenDigitRunAhead (c # cs) \<longleftrightarrow> odd (length cs)"
    using Cons.prems(1) dc
    by (auto simp add: notWordBoundary_def wordSide_def isDigit_word evenDigitRunAhead_def run Let_def
        simp del: takeWhile.simps elim: oddE)
  have ih: "insertCommas (Some c) cs
           = (if even (length cs) \<and> cs \<noteq> [] then CHR '','' # joinWith (CHR '','') (pairsFromRight cs)
              else joinWith (CHR '','') (pairsFromRight cs))"
    using Cons.IH [OF dc dcs] .
  have scan: "insertCommas (Some p) (c # cs)
                = (if odd (length cs) then '','' else []) @ c # insertCommas (Some c) cs"
    by (simp only: insertCommas.simps here)
  show ?case
  proof (cases "even (length cs)")
    case True
    then show ?thesis
      by (simp add: scan ih grouped_even_tail del: insertCommas.simps)
  next
    case False
    then show ?thesis
      by (simp add: scan ih grouped_odd_tail del: insertCommas.simps)
  qed
qed

lemma replacePairBoundaries_digits:
  assumes "\<forall>c \<in> set s. isDigit c"
  shows "replacePairBoundaries s = joinWith (CHR '','') (pairsFromRight s)"
proof (cases s)
  case Nil
  then show ?thesis by (simp add: replacePairBoundaries_def)
next
  case (Cons c cs)
  with assms have dc: "isDigit c" and dcs: "\<forall>x \<in> set cs. isDigit x" by simp_all
  have first: "\<not> notWordBoundary None (Some c)"
    using dc by (simp add: notWordBoundary_def wordSide_def isDigit_word)
  have "replacePairBoundaries (c # cs) = c # insertCommas (Some c) cs"
    using first by (simp add: replacePairBoundaries_def)
  also have "\<dots> = joinWith (CHR '','') (pairsFromRight (c # cs))"
  proof (cases "even (length cs)")
    case True
    then show ?thesis
      by (simp add: insertCommas_after_digit [OF dc dcs] grouped_even_tail)
  next
    case False
    then show ?thesis
      by (simp add: insertCommas_after_digit [OF dc dcs] grouped_odd_tail)
  qed
  finally show ?thesis by (simp add: Cons)
qed

lemma showNat_isDigit: "\<forall>c \<in> set (showNat n). isDigit c"
  unfolding isDigit_def using showNat_digits [of n] by blast

lemma grouped_integer:
  assumes "\<forall>c \<in> set ds. isDigit c"
  shows "replacePairBoundaries (take (length ds - 3) ds)
           @ (if take (length ds - 3) ds \<noteq> [] then '','' @ drop (length ds - 3) ds
              else drop (length ds - 3) ds)
         = indianGrouping ds"
proof (cases "length ds \<le> 3")
  case True
  then show ?thesis
    by (simp add: indianGrouping_def replacePairBoundaries_def)
next
  case False
  then have ne: "take (length ds - 3) ds \<noteq> []" by auto
  have "\<forall>c \<in> set (take (length ds - 3) ds). isDigit c"
    using assms by (meson in_set_takeD)
  then have "replacePairBoundaries (take (length ds - 3) ds)
               = joinWith (CHR '','') (pairsFromRight (take (length ds - 3) ds))"
    by (rule replacePairBoundaries_digits)
  moreover have "pairsFromRight (take (length ds - 3) ds) \<noteq> []"
    using ne by (simp add: pairsFromRight_empty_iff)
  ultimately show ?thesis
    using False ne by (simp add: indianGrouping_def joinWith_snoc)
qed

subsection \<open>Indian grouping\<close>

text \<open>
  Every copy of \<open>formatCurrency\<close> renders an INR amount of magnitude below \<open>10\<^sup>2\<^sup>1\<close> as
  the minus sign when the amount is negative, its currency literal, the integer part of
  the amount rounded to hundredths in the Indian grouping, a point and two digits.
\<close>

lemma formatCurrencyWith_inr:
  assumes "\<bar>v\<bar> < 10 ^ 21"
  shows "formatCurrencyWith literal intlFormat v ''INR'' =
            (if v < 0 then ''-'' else []) @ literal
            @ indianGrouping (showNat (nat \<lfloor>\<bar>v\<bar> * 100 + 1 / 2\<rfloor> div 100))
            @ ''.'' @ [digit (nat \<lfloor>\<bar>v\<bar> * 100 + 1 / 2\<rfloor> div 10 mod 10),
                       digit (nat \<lfloor>\<bar>v\<bar> * 100 + 1 / 2\<rfloor> mod 10)]"
proof -
  define n where "n = nat \<lfloor>\<bar>v\<bar> * 100 + 1 / 2\<rfloor>"
  define ip where "ip = showNat (n div 100)"
  define dp where "dp = [digit (n div 10 mod 10), digit (n mod 10)]"
  have fixed: "toFixed 2 \<bar>v\<bar> = ip @ ''.'' @ dp"
    using toFixed2_nonneg [of "\<bar>v\<bar>"] by (simp add: n_def ip_def dp_def)
  have parts: "splitOn (CHR ''.'') (ip @ ''.'' @ dp) = [ip, dp]"
    unfolding ip_def dp_def by (rule split_fixed) simp_all
  have group: "replacePairBoundaries (take (length ip - 3) ip)
         @ (if take (length ip - 3) ip \<noteq> [] then '','' @ drop (length ip - 3) ip
            else drop (length ip - 3) ip)
       = indianGrouping ip"
    unfolding ip_def by (rule grouped_integer) (rule showNat_isDigit)
  have "formatCurrencyWith literal intlFormat v ''INR'' =
          (if v < 0 then ''-'' else []) @ literal
          @ (replacePairBoundaries (take (length ip - 3) ip)
             @ (if take (length ip - 3) ip \<noteq> [] then '','' @ drop (length ip - 3) ip
                else drop (length ip - 3) ip))
          @ ''.'' @ dp"
    unfolding formatCurrencyWith_def Let_def fixed parts substring_tail substring_head
    by (simp add: element_def)
  then show ?thesis
    unfolding group by (simp add: ip_def dp_def n_def)
qed

lemma formatCurrencyWith_example:
  "formatCurrencyWith literal intlFormat 1234567.5 ''INR'' = literal @ ''12,34,567.50''"
  by (subst formatCurrencyWith_inr)
     (simp_all add: indianGrouping_def pairsFromRight_def showNat.simps digit_def)

lemma formatCurrency_grid_inr:
  "\<bar>v\<bar> < 10 ^ 21 \<Longrightarrow>
     formatCurrency_grid intlFormat v ''INR'' =
       (if v < 0 then ''-'' else []) @ rupee
       @ indianGrouping (showNat (nat \<lfloor>\<bar>v\<bar> * 100 + 1 / 2\<rfloor> div 100))
       @ ''.'' @ [digit (nat \<lfloor>\<bar>v\<bar> * 100 + 1 / 2\<rfloor> div 10 mod 10),
                  digit (nat \<lfloor>\<bar>v\<bar> * 100 + 1 / 2\<rfloor> mod 10)]"
  unfolding formatCurrency_grid_def by (rule formatCurrencyWith_inr)

lemma formatCurrency_grid_negative:
  "formatCurrency_grid plainFormat (- 1234.5) ''INR'' = ''-'' @ rupee @ ''1,234.50''"
  using formatCurrency_grid_inr [of "- 1234.5" plainFormat]
  by (simp add: indianGrouping_def pairsFromRight_def showNat.simps digit_def)

text \<open>
  Claim C5. \<open>formatCurrency\<close> for INR renders the amount with two decimal digits, the
  integer part in the Indian grouping, the rupee sign in front and the minus sign of a
  negative amount before the rupee sign; 1234567.5 is rendered as the rupee sign
  followed by \<open>12,34,567.50\<close>. The copy of the data-grid screen does so. The copy of
  \<^verbatim>\<open>pages/Holdings/ListHoldings.tsx\<close> groups the digits in the same way but puts the
  misread literal in front, not the rupee sign.
\<close>

theorem formatCurrency_ListHoldings_literal:
  "formatCurrency_ListHoldings plainFormat 1234567.5 ''INR'' = rupeeMisread @ ''12,34,567.50''
   \<and> formatCurrency_ListHoldings plainFormat 1234567.5 ''INR'' \<noteq> rupee @ ''12,34,567.50''
   \<and> formatCurrency_grid plainFormat 1234567.5 ''INR'' = rupee @ ''12,34,567.50''"
proof (intro conjI)
  have printed: "formatCurrency_ListHoldings plainFormat 1234567.5 ''INR'' = rupeeMisread @ ''12,34,567.50''"
    unfolding formatCurrency_ListHoldings_def by (rule formatCurrencyWith_example)
  have differ: "rupeeMisread @ ''12,34,567.50'' \<noteq> rupee @ ''12,34,567.50''"
    by (simp add: rupee_def rupeeMisread_def)
  show "formatCurrency_ListHoldings plainFormat 1234567.5 ''INR'' = rupeeMisread @ ''12,34,567.50''"
    by (rule printed)
  show "formatCurrency_ListHoldings plainFormat 1234567.5 ''INR'' \<noteq> rupee @ ''12,34,567.50''"
    unfolding printed by (rule differ)
  show "formatCurrency_grid plainFormat 1234567.5 ''INR'' = rupee @ ''12,34,567.50''"
    unfolding formatCurrency_grid_def by (rule formatCurrencyWith_example)
qed

end
